theory Spec2Isabelle
  imports Main "HOL-Library.AList"
begin

section \<open>Binance integration: the secret resolver and the kline fetcher\<close>

text \<open>
  A shallow embedding of \<^verbatim>\<open>binance_integration.py\<close>. The module is glue between
  three libraries (requests, pandas, streamlit) and the process environment. What the
  module itself decides is the order of the calls, the branches between them and what
  happens when one of them raises; that is what is modelled here. The libraries are
  parameters: a record of functions, each returning either the exception it raises
  (\<open>Inl\<close>) or its value (\<open>Inr\<close>).
\<close>

subsection \<open>Exceptions\<close>

text \<open>
  An exception is kept as the text that \<^verbatim>\<open>{e}\<close> prints. Every exception of the model
  is an instance of Python's \<^verbatim>\<open>Exception\<close>, the class the handler of
  \<^verbatim>\<open>fetch_klines\<close> names; \<^verbatim>\<open>KeyboardInterrupt\<close> and \<^verbatim>\<open>SystemExit\<close>, which arrive
  from outside the sequential run of the function, are not modelled.
\<close>

datatype exn = Exn string

subsection \<open>The secret resolver\<close>

text \<open>
  \<^verbatim>\<open>st\<close> is the streamlit module, or \<^verbatim>\<open>None\<close> when the import failed.
  \<^verbatim>\<open>st.secrets\<close> is read each time it is used: the read gives the parsed secrets file,
  a mapping of top-level names to entries, or raises, as it does when there is no
  secrets file or the file does not parse. An entry is a table of keys and values, or
  a value that is not a table: a string, an array, a number. The values of a table are
  strings, as the two credentials are. \<^verbatim>\<open>get_secret\<close> has no handler, so every
  exception of these reads is a result of the model.

  \<^verbatim>\<open>environ\<close> is the process environment after \<^verbatim>\<open>load_dotenv()\<close>. \<^verbatim>\<open>os.getenv\<close>
  encodes the key before it looks it up and raises when the key cannot be encoded;
  \<open>key_error\<close> is that exception, if any.
\<close>

datatype entry =
    Table "string \<rightharpoonup> string"
  | Str string
  | Arr "string list"
  | Num int

type_synonym secrets = "exn + (string \<rightharpoonup> entry)"

record host =
  st :: "secrets option"
  environ :: "string \<rightharpoonup> string"
  key_error :: "string \<Rightarrow> exn option"

definition secrets_contains :: "secrets \<Rightarrow> string \<Rightarrow> exn + bool" where
  \<comment> \<open>\<^verbatim>\<open>name in st.secrets\<close>\<close>
  "secrets_contains s name = (case s of Inl e \<Rightarrow> Inl e | Inr m \<Rightarrow> Inr (m name \<noteq> None))"

definition secrets_getitem :: "secrets \<Rightarrow> string \<Rightarrow> exn + entry" where
  \<comment> \<open>\<^verbatim>\<open>st.secrets[name]\<close>\<close>
  "secrets_getitem s name =
     (case s of
        Inl e \<Rightarrow> Inl e
      | Inr m \<Rightarrow> (case m name of None \<Rightarrow> Inl (Exn ''KeyError'') | Some v \<Rightarrow> Inr v))"

fun starts_with :: "string \<Rightarrow> string \<Rightarrow> bool" where
  "starts_with [] ys = True"
| "starts_with (x # xs) [] = False"
| "starts_with (x # xs) (y # ys) = (x = y \<and> starts_with xs ys)"

fun substring :: "string \<Rightarrow> string \<Rightarrow> bool" where
  "substring xs [] = (xs = [])"
| "substring xs (y # ys) = (starts_with xs (y # ys) \<or> substring xs ys)"

fun entry_contains :: "entry \<Rightarrow> string \<Rightarrow> exn + bool" where
  \<comment> \<open>\<^verbatim>\<open>key in v\<close>: a key of a table, a substring of a string, an element of an array\<close>
  "entry_contains (Table t) key = Inr (t key \<noteq> None)"
| "entry_contains (Str s) key = Inr (substring key s)"
| "entry_contains (Arr xs) key = Inr (key \<in> set xs)"
| "entry_contains (Num n) key = Inl (Exn ''TypeError'')"

fun entry_getitem :: "entry \<Rightarrow> string \<Rightarrow> exn + string" where
  \<comment> \<open>\<^verbatim>\<open>v[key]\<close> with a string key\<close>
  "entry_getitem (Table t) key =
     (case t key of None \<Rightarrow> Inl (Exn ''KeyError'') | Some x \<Rightarrow> Inr x)"
| "entry_getitem (Str s) key = Inl (Exn ''TypeError'')"
| "entry_getitem (Arr xs) key = Inl (Exn ''TypeError'')"
| "entry_getitem (Num n) key = Inl (Exn ''TypeError'')"

definition getenv :: "host \<Rightarrow> string \<Rightarrow> exn + string option" where
  \<comment> \<open>\<^verbatim>\<open>os.getenv(key)\<close>\<close>
  "getenv h key = (case key_error h key of Some e \<Rightarrow> Inl e | None \<Rightarrow> Inr (environ h key))"

definition get_secret :: "host \<Rightarrow> string \<Rightarrow> exn + string option" where
  "get_secret h key =
     (case st h of
        None \<Rightarrow> getenv h key
      | Some secrets \<Rightarrow>
          (case secrets_contains secrets ''general'' of
             Inl e \<Rightarrow> Inl e
           | Inr False \<Rightarrow> getenv h key
           | Inr True \<Rightarrow>
               (case secrets_getitem secrets ''general'' of
                  Inl e \<Rightarrow> Inl e
                | Inr general \<Rightarrow>
                    (case entry_contains general key of
                       Inl e \<Rightarrow> Inl e
                     | Inr False \<Rightarrow> getenv h key
                     | Inr True \<Rightarrow>
                         (case secrets_getitem secrets ''general'' of
                            Inl e \<Rightarrow> Inl e
                          | Inr general' \<Rightarrow>
                              (case entry_getitem general' key of
                                 Inl e \<Rightarrow> Inl e
                               | Inr v \<Rightarrow> Inr (Some v)))))))"



text \<open>
  The two module-level names bound when the module is loaded. A function of the module
  can read them, so \<open>fetch_klines\<close> below receives them.
\<close>

record globals =
  BINANCE_API_KEY :: "string option"
  BINANCE_API_SECRET :: "string option"

definition load_keys :: "host \<Rightarrow> exn + globals" where
  "load_keys h =
     (case get_secret h ''BINANCE_API_KEY'' of
        Inl e \<Rightarrow> Inl e
      | Inr k \<Rightarrow>
          (case get_secret h ''BINANCE_API_SECRET'' of
             Inl e \<Rightarrow> Inl e
           | Inr s \<Rightarrow> Inr \<lparr>BINANCE_API_KEY = k, BINANCE_API_SECRET = s\<rparr>))"

subsection \<open>Requests and responses\<close>

text \<open>
  \<^verbatim>\<open>params\<close> is a dict; Python keeps the order of insertion, which is the order of
  the query string, so it is an association list updated with \<open>AList.update\<close> (replace
  in place, or append).
\<close>

datatype pval = S string | I int

type_synonym params = "(string \<times> pval) list"

record request =
  url :: string
  params :: params
  timeout :: nat

text \<open>
  The parsed body: Python's \<^verbatim>\<open>None\<close>, \<^verbatim>\<open>bool\<close>, \<^verbatim>\<open>int\<close>, \<^verbatim>\<open>str\<close>, \<^verbatim>\<open>list\<close> and
  \<^verbatim>\<open>dict\<close>. A kline payload carries integers and decimal strings; numbers with a
  fraction are left out.
\<close>

datatype json =
    JNull
  | JBool bool
  | JInt int
  | JStr string
  | JArr "json list"
  | JObj "(string \<times> json) list"

text \<open>
  A response is what its two methods do: \<^verbatim>\<open>raise_for_status()\<close> raises or returns,
  \<^verbatim>\<open>json()\<close> raises or returns the parsed body.
\<close>

record response =
  raise_for_status :: "exn option"
  json :: "exn + json"

subsection \<open>Frames\<close>

text \<open>
  Instants are integers, nanoseconds since the epoch. A frame is its columns in order,
  each a name and the cells of the column; \<^verbatim>\<open>pd.DataFrame()\<close> is the frame with no
  column. A cell is an object as it came from the payload, a timestamp, or a float; the
  float type belongs to the library and is a type parameter.
\<close>

type_synonym datetime = int

datatype 'f cell = Raw json | Time datetime | Num 'f

type_synonym 'f frame = "(string \<times> 'f cell list) list"

record 'f pandas =
  epoch_ms :: "datetime \<Rightarrow> exn + int"
    \<comment> \<open>\<^verbatim>\<open>int(pd.Timestamp(t).timestamp() * 1000)\<close>\<close>
  minus_days :: "datetime \<Rightarrow> int \<Rightarrow> exn + datetime"
    \<comment> \<open>\<^verbatim>\<open>now - pd.Timedelta(days=days)\<close>\<close>
  DataFrame_other :: "json \<Rightarrow> string list \<Rightarrow> exn + 'f frame"
    \<comment> \<open>\<^verbatim>\<open>pd.DataFrame(data, columns=...)\<close> on data that is not a list of rows of that width\<close>
  to_datetime_ms :: "'f cell \<Rightarrow> exn + datetime"
    \<comment> \<open>\<^verbatim>\<open>pd.to_datetime(..., unit="ms")\<close> on one cell\<close>
  to_float :: "'f cell \<Rightarrow> exn + 'f"
    \<comment> \<open>\<^verbatim>\<open>.astype(float)\<close> on one cell\<close>

text \<open>The world of one call: the clock, the transport and the library.\<close>

record 'f world =
  utcnow :: datetime
  requests_get :: "request \<Rightarrow> exn + response"
  pd :: "'f pandas"

text \<open>What a call does besides returning: the GETs sent, the lines printed, the sleeps.\<close>

datatype log_line =
    WARN string params  \<comment> \<open>\<^verbatim>\<open>[WARN] No data returned for {symbol}. Params: {params}\<close>\<close>
  | OK string nat       \<comment> \<open>\<^verbatim>\<open>[OK] Data fetched for {symbol}: {len(df)} rows\<close>\<close>
  | ERROR string exn    \<comment> \<open>\<^verbatim>\<open>[ERROR] Public Binance API error for {symbol}: {e}\<close>\<close>

record trace =
  gets :: "request list"
  printed :: "log_line list"
  slept :: "nat list"

definition quiet :: trace where
  "quiet = \<lparr>gets = [], printed = [], slept = []\<rparr>"

subsection \<open>Building the request\<close>

definition base_url :: string where
  "base_url = ''https://data-api.binance.vision/api/v3/klines''"

definition build_params ::
  "'f world \<Rightarrow> string \<Rightarrow> string \<Rightarrow> int \<Rightarrow> datetime option \<Rightarrow> datetime option \<Rightarrow> exn + params"
where
  "build_params w symbol interval days start_time end_time =
     (let p0 = [(''symbol'', S symbol), (''interval'', S interval), (''limit'', I 1000)] in
      case (case start_time of
              None \<Rightarrow> Inr p0
            | Some t \<Rightarrow>
                (case epoch_ms (pd w) t of
                   Inl e \<Rightarrow> Inl e
                 | Inr ms \<Rightarrow> Inr (AList.update ''startTime'' (I ms) p0)))
      of
        Inl e \<Rightarrow> Inl e
      | Inr p1 \<Rightarrow>
          (case end_time of
             Some t \<Rightarrow>
               (case epoch_ms (pd w) t of
                  Inl e \<Rightarrow> Inl e
                | Inr ms \<Rightarrow> Inr (AList.update ''endTime'' (I ms) p1))
           | None \<Rightarrow>
               if start_time = None then
                 (case minus_days (pd w) (utcnow w) days of
                    Inl e \<Rightarrow> Inl e
                  | Inr t \<Rightarrow>
                      (case epoch_ms (pd w) t of
                         Inl e \<Rightarrow> Inl e
                       | Inr ms \<Rightarrow> Inr (AList.update ''startTime'' (I ms) p1)))
               else Inr p1))"

subsection \<open>Reading the payload\<close>

fun truthy :: "json \<Rightarrow> bool" where
  "truthy JNull = False"
| "truthy (JBool b) = b"
| "truthy (JInt n) = (n \<noteq> 0)"
| "truthy (JStr s) = (s \<noteq> [])"
| "truthy (JArr xs) = (xs \<noteq> [])"
| "truthy (JObj kvs) = (kvs \<noteq> [])"

fun len :: "json \<Rightarrow> exn + nat" where
  "len (JStr s) = Inr (length s)"
| "len (JArr xs) = Inr (length xs)"
| "len (JObj kvs) = Inr (length kvs)"
| "len _ = Inl (Exn ''TypeError'')"

definition no_data :: "json \<Rightarrow> exn + bool" where
  \<comment> \<open>\<^verbatim>\<open>not data or len(data) == 0\<close>\<close>
  "no_data data =
     (if \<not> truthy data then Inr True
      else case len data of Inl e \<Rightarrow> Inl e | Inr n \<Rightarrow> Inr (n = 0))"

fun traverse :: "('a \<Rightarrow> exn + 'b) \<Rightarrow> 'a list \<Rightarrow> exn + 'b list" where
  "traverse f [] = Inr []"
| "traverse f (x # xs) =
     (case f x of
        Inl e \<Rightarrow> Inl e
      | Inr y \<Rightarrow> (case traverse f xs of Inl e \<Rightarrow> Inl e | Inr ys \<Rightarrow> Inr (y # ys)))"

definition kline_columns :: "string list" where
  "kline_columns =
     [''open_time'', ''open'', ''high'', ''low'', ''close'', ''volume'',
      ''close_time'', ''quote_asset_volume'', ''num_trades'',
      ''taker_buy_base_asset_volume'', ''taker_buy_quote_asset_volume'', ''ignore'']"

definition numeric_cols :: "string list" where
  "numeric_cols = [''open'', ''high'', ''low'', ''close'', ''volume'']"

definition key_columns :: "string list" where
  "key_columns = [''open_time'', ''open'', ''high'', ''low'', ''close'', ''volume'']"

fun row_cells :: "nat \<Rightarrow> json \<Rightarrow> json list option" where
  "row_cells n (JArr cs) = (if length cs = n then Some cs else None)"
| "row_cells n _ = None"

fun rows_of :: "nat \<Rightarrow> json \<Rightarrow> json list list option" where
  "rows_of n (JArr rs) =
     (if list_all (\<lambda>r. row_cells n r \<noteq> None) rs then Some (map (\<lambda>r. the (row_cells n r)) rs)
      else None)"
| "rows_of n _ = None"

definition column_at :: "json list list \<Rightarrow> nat \<Rightarrow> 'f cell list" where
  "column_at rows i = map (\<lambda>r. Raw (r ! i)) rows"

definition DataFrame :: "'f pandas \<Rightarrow> json \<Rightarrow> string list \<Rightarrow> exn + 'f frame" where
  "DataFrame lib data columns =
     (case rows_of (length columns) data of
        Some rows \<Rightarrow> Inr (map (\<lambda>i. (columns ! i, column_at rows i)) [0..<length columns])
      | None \<Rightarrow> DataFrame_other lib data columns)"

definition getcol :: "'f frame \<Rightarrow> string \<Rightarrow> exn + 'f cell list" where
  \<comment> \<open>\<^verbatim>\<open>df[c]\<close>\<close>
  "getcol df c = (case map_of df c of None \<Rightarrow> Inl (Exn ''KeyError'') | Some v \<Rightarrow> Inr v)"

definition getcols :: "'f frame \<Rightarrow> string list \<Rightarrow> exn + 'f frame" where
  \<comment> \<open>\<^verbatim>\<open>df[[c1, ..., cn]]\<close>\<close>
  "getcols df cs =
     traverse (\<lambda>c. case getcol df c of Inl e \<Rightarrow> Inl e | Inr v \<Rightarrow> Inr (c, v)) cs"

definition astype_float :: "'f pandas \<Rightarrow> 'f frame \<Rightarrow> exn + 'f frame" where
  "astype_float lib df =
     traverse (\<lambda>(c, v). case traverse (to_float lib) v of
                          Inl e \<Rightarrow> Inl e
                        | Inr xs \<Rightarrow> Inr (c, map Num xs)) df"

definition setcols :: "'f frame \<Rightarrow> 'f frame \<Rightarrow> 'f frame" where
  \<comment> \<open>\<^verbatim>\<open>df[[c1, ..., cn]] = new\<close>\<close>
  "setcols df new = fold (\<lambda>(c, v). AList.update c v) new df"

definition len_frame :: "'f frame \<Rightarrow> nat" where
  "len_frame df = (case df of [] \<Rightarrow> 0 | (c, v) # rest \<Rightarrow> length v)"

definition to_frame :: "'f pandas \<Rightarrow> json \<Rightarrow> exn + 'f frame" where
  "to_frame lib data =
     (case DataFrame lib data kline_columns of
        Inl e \<Rightarrow> Inl e
      | Inr df0 \<Rightarrow>
     (case getcol df0 ''open_time'' of
        Inl e \<Rightarrow> Inl e
      | Inr ot \<Rightarrow>
     (case traverse (to_datetime_ms lib) ot of
        Inl e \<Rightarrow> Inl e
      | Inr ts \<Rightarrow>
     (let df1 = AList.update ''open_time'' (map Time ts) df0 in
      case getcols df1 numeric_cols of
        Inl e \<Rightarrow> Inl e
      | Inr sub \<Rightarrow>
     (case astype_float lib sub of
        Inl e \<Rightarrow> Inl e
      | Inr nums \<Rightarrow> getcols (setcols df1 nums) key_columns)))))"

subsection \<open>The fetcher\<close>

definition try_body ::
  "'f world \<Rightarrow> string \<Rightarrow> string \<Rightarrow> int \<Rightarrow> datetime option \<Rightarrow> datetime option
     \<Rightarrow> trace \<times> (exn + 'f frame)"
where
  "try_body w symbol interval days start_time end_time =
     (case build_params w symbol interval days start_time end_time of
        Inl e \<Rightarrow> (quiet, Inl e)
      | Inr ps \<Rightarrow>
     (let rq = \<lparr>url = base_url, params = ps, timeout = 10\<rparr>;
          t = quiet\<lparr>gets := [rq]\<rparr> in
      case requests_get w rq of
        Inl e \<Rightarrow> (t, Inl e)
      | Inr resp \<Rightarrow>
     (case raise_for_status resp of
        Some e \<Rightarrow> (t, Inl e)
      | None \<Rightarrow>
     (case json resp of
        Inl e \<Rightarrow> (t, Inl e)
      | Inr data \<Rightarrow>
     (case no_data data of
        Inl e \<Rightarrow> (t, Inl e)
      | Inr True \<Rightarrow> (t\<lparr>printed := [WARN symbol ps]\<rparr>, Inr [])
      | Inr False \<Rightarrow>
     (case to_frame (pd w) data of
        Inl e \<Rightarrow> (t, Inl e)
      | Inr df \<Rightarrow> (t\<lparr>printed := [OK symbol (len_frame df)]\<rparr>, Inr df)))))))"

definition fetch_klines ::
  "globals \<Rightarrow> 'f world \<Rightarrow> string \<Rightarrow> string \<Rightarrow> int \<Rightarrow> datetime option \<Rightarrow> datetime option
     \<Rightarrow> trace \<times> 'f frame"
where
  "fetch_klines g w symbol interval days start_time end_time =
     (case try_body w symbol interval days start_time end_time of
        (t, Inr df) \<Rightarrow> (t, df)
      | (t, Inl e) \<Rightarrow>
          (t\<lparr>printed := printed t @ [ERROR symbol e], slept := slept t @ [2]\<rparr>, []))"

definition the_request :: "params \<Rightarrow> request" where
  \<comment> \<open>the arguments of the one call \<^verbatim>\<open>requests.get(base_url, params=params, timeout=10)\<close>\<close>
  "the_request ps = \<lparr>url = base_url, params = ps, timeout = 10\<rparr>"

subsection \<open>Kline rows\<close>

text \<open>
  The row shape of the data model: an opening time and five floats. \<open>parses\<close> reads one
  row of the payload cell by cell, and \<open>kline_frame\<close> lays rows out as the six columns
  of the result. \<open>converted\<close> is the same reading column by column, in the order in which
  the conversions run, with the first exception raised.
\<close>

record 'f kline =
  open_time :: datetime
  open_price :: 'f
  high :: 'f
  low :: 'f
  close_price :: 'f
  volume :: 'f

definition parses :: "'f pandas \<Rightarrow> json list \<Rightarrow> 'f kline \<Rightarrow> bool" where
  "parses lib r k =
     (to_datetime_ms lib (Raw (r ! 0)) = Inr (open_time k) \<and>
      to_float lib (Raw (r ! 1)) = Inr (open_price k) \<and>
      to_float lib (Raw (r ! 2)) = Inr (high k) \<and>
      to_float lib (Raw (r ! 3)) = Inr (low k) \<and>
      to_float lib (Raw (r ! 4)) = Inr (close_price k) \<and>
      to_float lib (Raw (r ! 5)) = Inr (volume k))"

definition kline_frame :: "'f kline list \<Rightarrow> 'f frame" where
  "kline_frame ks =
     [(''open_time'', map (\<lambda>k. Time (open_time k)) ks),
      (''open'', map (\<lambda>k. Num (open_price k)) ks),
      (''high'', map (\<lambda>k. Num (high k)) ks),
      (''low'', map (\<lambda>k. Num (low k)) ks),
      (''close'', map (\<lambda>k. Num (close_price k)) ks),
      (''volume'', map (\<lambda>k. Num (volume k)) ks)]"

definition bad_row :: "'f pandas \<Rightarrow> json list \<Rightarrow> bool" where
  "bad_row lib r =
     (isl (to_datetime_ms lib (Raw (r ! 0))) \<or>
      list_ex (\<lambda>i. isl (to_float lib (Raw (r ! i)))) [1, 2, 3, 4, 5])"

definition converted :: "'f pandas \<Rightarrow> json list list \<Rightarrow> exn + 'f frame" where
  "converted lib rows =
     (case traverse (to_datetime_ms lib) (column_at rows 0) of
        Inl e \<Rightarrow> Inl e
      | Inr ts \<Rightarrow>
     (case traverse (to_float lib) (column_at rows 1) of
        Inl e \<Rightarrow> Inl e
      | Inr c1 \<Rightarrow>
     (case traverse (to_float lib) (column_at rows 2) of
        Inl e \<Rightarrow> Inl e
      | Inr c2 \<Rightarrow>
     (case traverse (to_float lib) (column_at rows 3) of
        Inl e \<Rightarrow> Inl e
      | Inr c3 \<Rightarrow>
     (case traverse (to_float lib) (column_at rows 4) of
        Inl e \<Rightarrow> Inl e
      | Inr c4 \<Rightarrow>
     (case traverse (to_float lib) (column_at rows 5) of
        Inl e \<Rightarrow> Inl e
      | Inr c5 \<Rightarrow>
          Inr [(''open_time'', map Time ts), (''open'', map Num c1), (''high'', map Num c2),
               (''low'', map Num c3), (''close'', map Num c4), (''volume'', map Num c5)]))))))"

definition open_times :: "'f frame \<Rightarrow> datetime list" where
  "open_times df =
     (case map_of df ''open_time'' of
        None \<Rightarrow> []
      | Some cs \<Rightarrow> concat (map (\<lambda>c. case c of Time t \<Rightarrow> [t] | _ \<Rightarrow> []) cs))"

subsection \<open>A world to run the model in\<close>

text \<open>
  A small instance of the library: timestamps and time deltas are signed 64-bit counts
  of nanoseconds and arithmetic that leaves the range raises; a cell converts to a
  timestamp when it is an integer, and to a float when it is an integer or a string of
  decimal digits. Its floats are whole numbers. The clock reads 2023-11-14 22:13:20 UTC.
\<close>

definition int64_max :: int where
  "int64_max = 9223372036854775807"

definition in_range :: "int \<Rightarrow> bool" where
  "in_range t = (- int64_max \<le> t \<and> t \<le> int64_max)"

definition digit_val :: "char \<Rightarrow> nat option" where
  "digit_val c =
     (let n = (of_char c :: nat) in if 48 \<le> n \<and> n \<le> 57 then Some (n - 48) else None)"

fun parse_digits :: "nat \<Rightarrow> string \<Rightarrow> nat option" where
  "parse_digits acc [] = Some acc"
| "parse_digits acc (c # cs) =
     (case digit_val c of None \<Rightarrow> None | Some v \<Rightarrow> parse_digits (10 * acc + v) cs)"

definition demo_float :: "string \<Rightarrow> exn + int" where
  "demo_float s =
     (if s = [] then Inl (Exn ''ValueError'')
      else case parse_digits 0 s of
             None \<Rightarrow> Inl (Exn ''ValueError'')
           | Some n \<Rightarrow> Inr (int n))"

definition demo_pandas :: "int pandas" where
  "demo_pandas =
     \<lparr>epoch_ms = (\<lambda>t. if in_range t
                       then Inr (if 0 \<le> t then t div 1000000 else - ((- t) div 1000000))
                       else Inl (Exn ''OutOfBoundsDatetime'')),
      minus_days = (\<lambda>now days.
         let delta = days * 86400000000000 in
         if \<not> in_range delta then Inl (Exn ''OutOfBoundsTimedelta'')
         else if \<not> in_range (now - delta) then Inl (Exn ''OutOfBoundsDatetime'')
         else Inr (now - delta)),
      DataFrame_other = (\<lambda>data columns. Inl (Exn ''ValueError'')),
      to_datetime_ms = (\<lambda>c. case c of
           Raw (JInt n) \<Rightarrow> if in_range (n * 1000000) then Inr (n * 1000000)
                           else Inl (Exn ''OutOfBoundsDatetime'')
         | _ \<Rightarrow> Inl (Exn ''ValueError'')),
      to_float = (\<lambda>c. case c of
           Raw (JInt n) \<Rightarrow> Inr n
         | Raw (JStr s) \<Rightarrow> demo_float s
         | _ \<Rightarrow> Inl (Exn ''TypeError''))\<rparr>"

definition demo_world :: "(request \<Rightarrow> exn + response) \<Rightarrow> int world" where
  "demo_world transport =
     \<lparr>utcnow = 1700000000000000000, requests_get = transport, pd = demo_pandas\<rparr>"

definition replies :: "json \<Rightarrow> request \<Rightarrow> exn + response" where
  "replies body rq = Inr \<lparr>raise_for_status = None, json = Inr body\<rparr>"

definition demo_row :: "int \<Rightarrow> string \<Rightarrow> json list" where
  "demo_row ms price =
     [JInt ms, JStr price, JStr ''35100'', JStr ''34900'', JStr ''35050'', JStr ''12'',
      JInt (ms + 3599999), JStr ''420000'', JInt 100, JStr ''6'', JStr ''210000'', JStr ''0'']"

definition demo_kline :: "int \<Rightarrow> int \<Rightarrow> int kline" where
  "demo_kline ms price =
     \<lparr>open_time = ms * 1000000, open_price = price, high = 35100, low = 34900,
      close_price = 35050, volume = 12\<rparr>"

definition demo_globals :: globals where
  "demo_globals = \<lparr>BINANCE_API_KEY = Some ''key'', BINANCE_API_SECRET = Some ''secret''\<rparr>"





section \<open>Helper lemmas\<close>

lemma traverse_Inr_D:
  "traverse f xs = Inr ys \<Longrightarrow> list_all2 (\<lambda>x y. f x = Inr y) xs ys"
  by (induction xs arbitrary: ys) (auto split: sum.splits)

lemma traverse_Inr_I:
  "list_all2 (\<lambda>x y. f x = Inr y) xs ys \<Longrightarrow> traverse f xs = Inr ys"
  by (induction xs ys rule: list_all2_induct) auto

lemma traverse_Inl_iff:
  "isl (traverse f xs) \<longleftrightarrow> (\<exists>x\<in>set xs. isl (f x))"
  by (induction xs) (auto split: sum.splits)

lemma upt_12: "[0..<12] = [0, 1, 2, 3, 4, 5, 6, 7, 8, 9, 10, 11]"
  by code_simp

lemma DataFrame_rows:
  assumes "rows_of 12 data = Some rows"
  shows "DataFrame lib data kline_columns =
           Inr [(''open_time'', column_at rows 0), (''open'', column_at rows 1),
                (''high'', column_at rows 2), (''low'', column_at rows 3),
                (''close'', column_at rows 4), (''volume'', column_at rows 5),
                (''close_time'', column_at rows 6), (''quote_asset_volume'', column_at rows 7),
                (''num_trades'', column_at rows 8),
                (''taker_buy_base_asset_volume'', column_at rows 9),
                (''taker_buy_quote_asset_volume'', column_at rows 10),
                (''ignore'', column_at rows 11)]"
proof -
  have n: "length kline_columns = 12"
    by (simp add: kline_columns_def)
  show ?thesis
    unfolding DataFrame_def n using assms
    by (simp add: upt_12 kline_columns_def)
qed

lemma to_frame_rows:
  assumes "rows_of 12 data = Some rows"
  shows "to_frame lib data = converted lib rows"
  unfolding to_frame_def DataFrame_rows [OF assms] converted_def
  by (simp add: getcol_def getcols_def astype_float_def setcols_def numeric_cols_def
      key_columns_def Let_def split: sum.splits)

lemma rows_of_JArr:
  "rows_of n data = Some rows \<Longrightarrow> \<exists>rs. data = JArr rs \<and> length rs = length rows"
  by (cases data) (auto split: if_splits)

lemma no_data_rows:
  assumes "rows_of n data = Some rows" and "rows \<noteq> []"
  shows "no_data data = Inr False"
proof -
  obtain rs where "data = JArr rs" and "length rs = length rows"
    using rows_of_JArr [OF assms(1)] by blast
  with assms(2) show ?thesis
    by (auto simp: no_data_def)
qed

lemma no_data_empty: "no_data (JArr []) = Inr True" "no_data JNull = Inr True"
  by (simp_all add: no_data_def)

subsection \<open>The body of the try block\<close>

lemma try_body_slept: "slept (fst (try_body w symbol interval days start_time end_time)) = []"
  by (simp add: try_body_def quiet_def Let_def split: sum.splits option.splits bool.splits)

lemma try_body_printed:
  "snd (try_body w symbol interval days start_time end_time) = Inl e \<Longrightarrow>
   printed (fst (try_body w symbol interval days start_time end_time)) = []"
  by (auto simp: try_body_def quiet_def Let_def split: sum.splits option.splits bool.splits)

lemma try_body_no_params:
  "build_params w symbol interval days start_time end_time = Inl e \<Longrightarrow>
   try_body w symbol interval days start_time end_time = (quiet, Inl e)"
  by (simp add: try_body_def)

lemma try_body_gets:
  "build_params w symbol interval days start_time end_time = Inr ps \<Longrightarrow>
   gets (fst (try_body w symbol interval days start_time end_time)) = [the_request ps]"
  by (simp add: try_body_def quiet_def the_request_def Let_def
      split: sum.splits option.splits bool.splits)

lemma try_body_network:
  "build_params w symbol interval days start_time end_time = Inr ps \<Longrightarrow>
   requests_get w (the_request ps) = Inl e \<Longrightarrow>
   try_body w symbol interval days start_time end_time = (quiet\<lparr>gets := [the_request ps]\<rparr>, Inl e)"
  by (simp add: try_body_def the_request_def Let_def)

lemma try_body_status:
  "build_params w symbol interval days start_time end_time = Inr ps \<Longrightarrow>
   requests_get w (the_request ps) = Inr resp \<Longrightarrow> raise_for_status resp = Some e \<Longrightarrow>
   try_body w symbol interval days start_time end_time = (quiet\<lparr>gets := [the_request ps]\<rparr>, Inl e)"
  by (simp add: try_body_def the_request_def Let_def)

lemma try_body_json:
  "build_params w symbol interval days start_time end_time = Inr ps \<Longrightarrow>
   requests_get w (the_request ps) = Inr resp \<Longrightarrow> raise_for_status resp = None \<Longrightarrow>
   json resp = Inl e \<Longrightarrow>
   try_body w symbol interval days start_time end_time = (quiet\<lparr>gets := [the_request ps]\<rparr>, Inl e)"
  by (simp add: try_body_def the_request_def Let_def)

lemma try_body_data:
  "build_params w symbol interval days start_time end_time = Inr ps \<Longrightarrow>
   requests_get w (the_request ps) = Inr resp \<Longrightarrow> raise_for_status resp = None \<Longrightarrow>
   json resp = Inr data \<Longrightarrow>
   try_body w symbol interval days start_time end_time =
     (case no_data data of
        Inl e \<Rightarrow> (quiet\<lparr>gets := [the_request ps]\<rparr>, Inl e)
      | Inr True \<Rightarrow> (quiet\<lparr>gets := [the_request ps], printed := [WARN symbol ps]\<rparr>, Inr [])
      | Inr False \<Rightarrow>
          (case to_frame (pd w) data of
             Inl e \<Rightarrow> (quiet\<lparr>gets := [the_request ps]\<rparr>, Inl e)
           | Inr df \<Rightarrow>
               (quiet\<lparr>gets := [the_request ps], printed := [OK symbol (len_frame df)]\<rparr>, Inr df)))"
  by (simp add: try_body_def the_request_def Let_def split: sum.splits bool.splits)

lemma fetch_klines_raise:
  "snd (try_body w symbol interval days start_time end_time) = Inl e \<Longrightarrow>
   fetch_klines g w symbol interval days start_time end_time =
     (fst (try_body w symbol interval days start_time end_time)
        \<lparr>printed := [ERROR symbol e], slept := [2]\<rparr>, [])"
  using try_body_printed [of w symbol interval days start_time end_time e]
    try_body_slept [of w symbol interval days start_time end_time]
  by (cases "try_body w symbol interval days start_time end_time")
     (simp add: fetch_klines_def)

lemma fetch_klines_return:
  "snd (try_body w symbol interval days start_time end_time) = Inr df \<Longrightarrow>
   fetch_klines g w symbol interval days start_time end_time =
     (fst (try_body w symbol interval days start_time end_time), df)"
  by (cases "try_body w symbol interval days start_time end_time")
     (simp add: fetch_klines_def)

lemma fetch_klines_gets:
  "gets (fst (fetch_klines g w symbol interval days start_time end_time)) =
   gets (fst (try_body w symbol interval days start_time end_time))"
  by (cases "try_body w symbol interval days start_time end_time")
     (simp add: fetch_klines_def split: sum.splits)

subsection \<open>The request parameters\<close>

lemma build_params_default:
  "minus_days (pd w) (utcnow w) days = Inr t \<Longrightarrow> epoch_ms (pd w) t = Inr ms \<Longrightarrow>
   build_params w symbol interval days None None =
     Inr [(''symbol'', S symbol), (''interval'', S interval), (''limit'', I 1000),
          (''startTime'', I ms)]"
  by (simp add: build_params_def)

lemma build_params_end_only:
  "build_params w symbol interval days None (Some t) =
     (case epoch_ms (pd w) t of
        Inl e \<Rightarrow> Inl e
      | Inr ms \<Rightarrow>
          Inr [(''symbol'', S symbol), (''interval'', S interval), (''limit'', I 1000),
               (''endTime'', I ms)])"
  by (simp add: build_params_def split: sum.splits)




lemma demo_params_default:
  "build_params (demo_world tr) ''BTCUSDT'' ''1h'' 2 None None =
     Inr [(''symbol'', S ''BTCUSDT''), (''interval'', S ''1h''), (''limit'', I 1000),
          (''startTime'', I 1699827200000)]"
  by (simp add: build_params_def demo_world_def demo_pandas_def in_range_def int64_max_def)

lemma demo_params_end_only:
  "build_params (demo_world tr) ''BTCUSDT'' ''1h'' 2 None (Some 1700000000000000000) =
     Inr [(''symbol'', S ''BTCUSDT''), (''interval'', S ''1h''), (''limit'', I 1000),
          (''endTime'', I 1700000000000)]"
  by (simp add: build_params_def demo_world_def demo_pandas_def in_range_def int64_max_def)

lemma demo_params_overflow:
  "build_params (demo_world tr) ''BTCUSDT'' ''1h'' 200000 None None =
     Inl (Exn ''OutOfBoundsTimedelta'')"
  by (simp add: build_params_def demo_world_def demo_pandas_def in_range_def int64_max_def)

lemma demo_world_sel:
  "requests_get (demo_world tr) = tr" "pd (demo_world tr) = demo_pandas"
  "utcnow (demo_world tr) = 1700000000000000000"
  by (simp_all add: demo_world_def)

lemma demo_run_end_only:
  "gets (fst (fetch_klines demo_globals (demo_world (replies (JArr []))) ''BTCUSDT'' ''1h'' 2 None
            (Some 1700000000000000000))) =
     [the_request [(''symbol'', S ''BTCUSDT''), (''interval'', S ''1h''), (''limit'', I 1000),
                   (''endTime'', I 1700000000000)]]"
  by (simp add: fetch_klines_gets try_body_gets [OF demo_params_end_only])


subsection \<open>Rows that parse, rows that do not\<close>

lemma column_parses:
  assumes "list_all2 (\<lambda>r k. f (Raw (r ! i)) = Inr (h k)) rows ks"
  shows "traverse f (column_at rows i) = Inr (map h ks)"
  unfolding column_at_def
  by (rule traverse_Inr_I) (simp add: list_all2_map1 list_all2_map2 assms)

lemma converted_parses:
  assumes "list_all2 (parses lib) rows ks"
  shows "converted lib rows = Inr (kline_frame ks)"
proof -
  have 0: "traverse (to_datetime_ms lib) (column_at rows 0) = Inr (map open_time ks)"
    by (rule column_parses) (rule list_all2_mono [OF assms], simp add: parses_def)
  have 1: "traverse (to_float lib) (column_at rows 1) = Inr (map open_price ks)"
    by (rule column_parses) (rule list_all2_mono [OF assms], simp add: parses_def)
  have 2: "traverse (to_float lib) (column_at rows 2) = Inr (map high ks)"
    by (rule column_parses) (rule list_all2_mono [OF assms], simp add: parses_def)
  have 3: "traverse (to_float lib) (column_at rows 3) = Inr (map low ks)"
    by (rule column_parses) (rule list_all2_mono [OF assms], simp add: parses_def)
  have 4: "traverse (to_float lib) (column_at rows 4) = Inr (map close_price ks)"
    by (rule column_parses) (rule list_all2_mono [OF assms], simp add: parses_def)
  have 5: "traverse (to_float lib) (column_at rows 5) = Inr (map volume ks)"
    by (rule column_parses) (rule list_all2_mono [OF assms], simp add: parses_def)
  show ?thesis
    unfolding converted_def 0 1 2 3 4 5
    by (simp add: kline_frame_def comp_def)
qed

lemma column_fails:
  "isl (traverse f (column_at rows i)) \<longleftrightarrow> (\<exists>r\<in>set rows. isl (f (Raw (r ! i))))"
  by (simp add: traverse_Inl_iff column_at_def)

lemma isl_converted:
  "isl (converted lib rows) \<longleftrightarrow>
     isl (traverse (to_datetime_ms lib) (column_at rows 0)) \<or>
     isl (traverse (to_float lib) (column_at rows 1)) \<or>
     isl (traverse (to_float lib) (column_at rows 2)) \<or>
     isl (traverse (to_float lib) (column_at rows 3)) \<or>
     isl (traverse (to_float lib) (column_at rows 4)) \<or>
     isl (traverse (to_float lib) (column_at rows 5))"
  by (simp add: converted_def split: sum.splits)

lemma converted_bad_row:
  assumes "r \<in> set rows" and "bad_row lib r"
  shows "isl (converted lib rows)"
  using assms unfolding isl_converted column_fails bad_row_def
  by auto

lemma len_kline_frame: "len_frame (kline_frame ks) = length ks"
  by (simp add: len_frame_def kline_frame_def)

lemma open_times_kline_frame: "open_times (kline_frame ks) = map open_time ks"
  by (induction ks) (simp_all add: open_times_def kline_frame_def)

lemma fetch_klines_rows:
  assumes "build_params w symbol interval days start_time end_time = Inr ps"
    and "requests_get w (the_request ps) = Inr resp"
    and "raise_for_status resp = None"
    and "json resp = Inr data"
    and "rows_of 12 data = Some rows"
    and "rows \<noteq> []"
    and "list_all2 (parses (pd w)) rows ks"
  shows "fetch_klines g w symbol interval days start_time end_time =
           (\<lparr>gets = [the_request ps], printed = [OK symbol (length rows)], slept = []\<rparr>,
            kline_frame ks)"
proof -
  have n: "length ks = length rows"
    using assms(7) by (simp add: list_all2_lengthD)
  have "to_frame (pd w) data = Inr (kline_frame ks)"
    by (simp add: to_frame_rows [OF assms(5)] converted_parses [OF assms(7)])
  then have "try_body w symbol interval days start_time end_time =
      (quiet\<lparr>gets := [the_request ps], printed := [OK symbol (length rows)]\<rparr>,
       Inr (kline_frame ks))"
    using try_body_data [OF assms(1-4)] no_data_rows [OF assms(5,6)]
    by (simp add: len_kline_frame n)
  then show ?thesis
    by (simp add: fetch_klines_def quiet_def)
qed

lemma fetch_klines_bad_row:
  assumes "build_params w symbol interval days start_time end_time = Inr ps"
    and "requests_get w (the_request ps) = Inr resp"
    and "raise_for_status resp = None"
    and "json resp = Inr data"
    and "rows_of 12 data = Some rows"
    and "r \<in> set rows"
    and "bad_row (pd w) r"
  shows "\<exists>e. try_body w symbol interval days start_time end_time =
           (quiet\<lparr>gets := [the_request ps]\<rparr>, Inl e)"
proof -
  have "rows \<noteq> []"
    using assms(6) by auto
  then have nd: "no_data data = Inr False"
    by (rule no_data_rows [OF assms(5)])
  have "isl (to_frame (pd w) data)"
    by (simp add: to_frame_rows [OF assms(5)] converted_bad_row [OF assms(6,7)])
  then obtain e where "to_frame (pd w) data = Inl e"
    by (cases "to_frame (pd w) data") auto
  then show ?thesis
    using try_body_data [OF assms(1-4)] nd by simp
qed

lemma demo_parses:
  "parses demo_pandas (demo_row 1700000000000 ''35000'') (demo_kline 1700000000000 35000)"
  "parses demo_pandas (demo_row 1700003600000 ''35020'') (demo_kline 1700003600000 35020)"
  by (simp_all add: parses_def demo_pandas_def demo_row_def demo_kline_def in_range_def
      int64_max_def demo_float_def digit_val_def)

lemma demo_bad_row: "bad_row demo_pandas (demo_row 1700003600000 ''abc'')"
  by (simp add: bad_row_def demo_pandas_def demo_row_def demo_float_def digit_val_def)

lemma demo_rows_of:
  "rows_of 12 (JArr [JArr (demo_row a p), JArr (demo_row b q)]) = Some [demo_row a p, demo_row b q]"
  by (simp add: demo_row_def)

lemma demo_row_length: "length (demo_row a p) = 12"
  by (simp add: demo_row_def)

lemma demo_run_rows:
  assumes "list_all2 (parses demo_pandas) [demo_row a p, demo_row b q] ks"
  shows "fetch_klines g (demo_world (replies (JArr [JArr (demo_row a p), JArr (demo_row b q)])))
           ''BTCUSDT'' ''1h'' 2 None None =
         (\<lparr>gets = [the_request [(''symbol'', S ''BTCUSDT''), (''interval'', S ''1h''),
                                  (''limit'', I 1000), (''startTime'', I 1699827200000)]],
           printed = [OK ''BTCUSDT'' 2], slept = []\<rparr>,
          kline_frame ks)"
proof -
  have "fetch_klines g (demo_world (replies (JArr [JArr (demo_row a p), JArr (demo_row b q)])))
           ''BTCUSDT'' ''1h'' 2 None None =
         (\<lparr>gets = [the_request [(''symbol'', S ''BTCUSDT''), (''interval'', S ''1h''),
                                  (''limit'', I 1000), (''startTime'', I 1699827200000)]],
           printed = [OK ''BTCUSDT'' (length [demo_row a p, demo_row b q])], slept = []\<rparr>,
          kline_frame ks)"
    by (rule fetch_klines_rows [where resp = "\<lparr>raise_for_status = None,
            json = Inr (JArr [JArr (demo_row a p), JArr (demo_row b q)])\<rparr>"
          and data = "JArr [JArr (demo_row a p), JArr (demo_row b q)]"
          and rows = "[demo_row a p, demo_row b q]"])
       (simp_all add: demo_params_default demo_world_sel replies_def demo_row_length assms)
  then show ?thesis by simp
qed

lemma fetch_klines_warn:
  assumes "build_params w symbol interval days start_time end_time = Inr ps"
    and "requests_get w (the_request ps) = Inr resp"
    and "raise_for_status resp = None"
    and "json resp = Inr data"
    and "no_data data = Inr True"
  shows "fetch_klines g w symbol interval days start_time end_time =
           (\<lparr>gets = [the_request ps], printed = [WARN symbol ps], slept = []\<rparr>, [])"
proof -
  have "try_body w symbol interval days start_time end_time =
      (quiet\<lparr>gets := [the_request ps], printed := [WARN symbol ps]\<rparr>, Inr [])"
    using try_body_data [OF assms(1-4)] assms(5) by simp
  then show ?thesis
    by (simp add: fetch_klines_def quiet_def)
qed

lemma handler_trace:
  "gets t = rs \<Longrightarrow> t\<lparr>printed := ls, slept := ns\<rparr> = \<lparr>gets = rs, printed = ls, slept = ns\<rparr>"
  by (cases t) simp

section \<open>The claims\<close>

text \<open>
  C1. No exception leaves \<open>fetch_klines\<close>. Whatever raises inside the try block, the
  call prints one error line with the symbol and the exception, sleeps 2 seconds and
  returns the empty frame. That is what happens when a time bound does not convert, when
  the transport raises (network error, timeout), when \<open>raise_for_status\<close> raises, when
  the body is not JSON, and when a single cell of a single row does not convert: no
  row of that response is returned.
\<close>

theorem fetch_klines_never_propagates:
  "(\<forall>e. snd (try_body w symbol interval days start_time end_time) = Inl e \<longrightarrow>
       fetch_klines g w symbol interval days start_time end_time =
         (fst (try_body w symbol interval days start_time end_time)
            \<lparr>printed := [ERROR symbol e], slept := [2]\<rparr>, []))
   \<and> (\<forall>e. build_params w symbol interval days start_time end_time = Inl e \<longrightarrow>
         snd (try_body w symbol interval days start_time end_time) = Inl e)
   \<and> (\<forall>ps. build_params w symbol interval days start_time end_time = Inr ps \<longrightarrow>
         (\<forall>e. requests_get w (the_request ps) = Inl e \<longrightarrow>
            snd (try_body w symbol interval days start_time end_time) = Inl e)
       \<and> (\<forall>resp. requests_get w (the_request ps) = Inr resp \<longrightarrow>
            (\<forall>e. raise_for_status resp = Some e \<longrightarrow>
               snd (try_body w symbol interval days start_time end_time) = Inl e)
          \<and> (raise_for_status resp = None \<longrightarrow>
               (\<forall>e. json resp = Inl e \<longrightarrow>
                  snd (try_body w symbol interval days start_time end_time) = Inl e)
             \<and> (\<forall>data rows. json resp = Inr data \<and> rows_of 12 data = Some rows
                    \<and> (\<exists>r\<in>set rows. bad_row (pd w) r) \<longrightarrow>
                  (\<exists>e. snd (try_body w symbol interval days start_time end_time) = Inl e)))))"
proof (intro conjI allI impI)
  fix e
  assume "snd (try_body w symbol interval days start_time end_time) = Inl e"
  then show "fetch_klines g w symbol interval days start_time end_time =
         (fst (try_body w symbol interval days start_time end_time)
            \<lparr>printed := [ERROR symbol e], slept := [2]\<rparr>, [])"
    by (rule fetch_klines_raise)
next
  fix e
  assume "build_params w symbol interval days start_time end_time = Inl e"
  then show "snd (try_body w symbol interval days start_time end_time) = Inl e"
    by (simp add: try_body_no_params)
next
  fix ps e
  assume "build_params w symbol interval days start_time end_time = Inr ps"
    and "requests_get w (the_request ps) = Inl e"
  then show "snd (try_body w symbol interval days start_time end_time) = Inl e"
    by (simp add: try_body_network)
next
  fix ps resp e
  assume "build_params w symbol interval days start_time end_time = Inr ps"
    and "requests_get w (the_request ps) = Inr resp"
    and "raise_for_status resp = Some e"
  then show "snd (try_body w symbol interval days start_time end_time) = Inl e"
    by (simp add: try_body_status)
next
  fix ps resp e
  assume "build_params w symbol interval days start_time end_time = Inr ps"
    and "requests_get w (the_request ps) = Inr resp"
    and "raise_for_status resp = None"
    and "json resp = Inl e"
  then show "snd (try_body w symbol interval days start_time end_time) = Inl e"
    by (simp add: try_body_json)
next
  fix ps resp data rows
  assume ps: "build_params w symbol interval days start_time end_time = Inr ps"
    and resp: "requests_get w (the_request ps) = Inr resp"
    and ok: "raise_for_status resp = None"
    and rest: "json resp = Inr data \<and> rows_of 12 data = Some rows
                 \<and> (\<exists>r\<in>set rows. bad_row (pd w) r)"
  from rest obtain r where "r \<in> set rows" and "bad_row (pd w) r"
    by blast
  with fetch_klines_bad_row [OF ps resp ok, of data rows r] rest
  obtain e where "try_body w symbol interval days start_time end_time =
      (quiet\<lparr>gets := [the_request ps]\<rparr>, Inl e)"
    by blast
  then show "\<exists>e. snd (try_body w symbol interval days start_time end_time) = Inl e"
    by simp
qed

theorem fetch_klines_never_propagates_witness:
  "(\<exists>r\<in>set [demo_row 1700000000000 ''35000'', demo_row 1700003600000 ''abc''].
      bad_row demo_pandas r)
   \<and> (\<exists>e. fetch_klines demo_globals
          (demo_world (replies (JArr [JArr (demo_row 1700000000000 ''35000''),
                                      JArr (demo_row 1700003600000 ''abc'')])))
          ''BTCUSDT'' ''1h'' 2 None None =
        (\<lparr>gets = [the_request [(''symbol'', S ''BTCUSDT''), (''interval'', S ''1h''),
                                 (''limit'', I 1000), (''startTime'', I 1699827200000)]],
          printed = [ERROR ''BTCUSDT'' e], slept = [2]\<rparr>, []))"
proof -
  let ?w = "demo_world (replies (JArr [JArr (demo_row 1700000000000 ''35000''),
                                       JArr (demo_row 1700003600000 ''abc'')]))"
  let ?ps = "[(''symbol'', S ''BTCUSDT''), (''interval'', S ''1h''), (''limit'', I 1000),
              (''startTime'', I 1699827200000)]"
  let ?resp = "\<lparr>raise_for_status = None,
                 json = Inr (JArr [JArr (demo_row 1700000000000 ''35000''),
                                   JArr (demo_row 1700003600000 ''abc'')])\<rparr>"
  note main = fetch_klines_never_propagates
    [of ?w "''BTCUSDT''" "''1h''" 2 None None demo_globals]
  have ps: "build_params ?w ''BTCUSDT'' ''1h'' 2 None None = Inr ?ps"
    by (rule demo_params_default)
  have resp: "requests_get ?w (the_request ?ps) = Inr ?resp"
    by (simp add: demo_world_sel replies_def)
  have rows: "rows_of 12 (JArr [JArr (demo_row 1700000000000 ''35000''),
                                JArr (demo_row 1700003600000 ''abc'')]) =
                Some [demo_row 1700000000000 ''35000'', demo_row 1700003600000 ''abc'']"
    by (rule demo_rows_of)
  have bad: "\<exists>r\<in>set [demo_row 1700000000000 ''35000'', demo_row 1700003600000 ''abc''].
               bad_row (pd ?w) r"
    by (simp add: demo_world_sel demo_bad_row)
  from main ps resp rows bad
  obtain e where e: "snd (try_body ?w ''BTCUSDT'' ''1h'' 2 None None) = Inl e"
    by fastforce
  with main have "fetch_klines demo_globals ?w ''BTCUSDT'' ''1h'' 2 None None =
      (fst (try_body ?w ''BTCUSDT'' ''1h'' 2 None None)
         \<lparr>printed := [ERROR ''BTCUSDT'' e], slept := [2]\<rparr>, [])"
    by blast
  then have "fetch_klines demo_globals ?w ''BTCUSDT'' ''1h'' 2 None None =
      (\<lparr>gets = [the_request ?ps], printed = [ERROR ''BTCUSDT'' e], slept = [2]\<rparr>, [])"
    by (simp add: handler_trace [OF try_body_gets [OF ps]])
  then show ?thesis
    using bad by (auto simp: demo_world_sel)
qed

text \<open>
  C2, as stated: whenever no \<open>start_time\<close> is given, the request carries a
  \<open>startTime\<close> derived from the clock and \<open>days\<close>. It fails when \<open>end_time\<close> is given:
  the one request sent has no \<open>startTime\<close>.
\<close>

theorem default_start_counterexample:
  "map_of (params (hd (gets (fst (fetch_klines demo_globals (demo_world (replies (JArr [])))
       ''BTCUSDT'' ''1h'' 2 None (Some 1700000000000000000))))))
     ''startTime'' = None
   \<and> length (gets (fst (fetch_klines demo_globals (demo_world (replies (JArr [])))
       ''BTCUSDT'' ''1h'' 2 None (Some 1700000000000000000)))) = 1"
  by (simp add: demo_run_end_only the_request_def)

text \<open>
  C2, amended: when neither \<open>start_time\<close> nor \<open>end_time\<close> is given and the date
  arithmetic does not raise, the one request sent carries, after symbol, interval and
  limit, a \<open>startTime\<close> that is the current UTC time minus \<open>days\<close> in epoch
  milliseconds.
\<close>

theorem default_start:
  assumes "minus_days (pd w) (utcnow w) days = Inr t"
    and "epoch_ms (pd w) t = Inr ms"
  shows "gets (fst (fetch_klines g w symbol interval days None None)) =
           [\<lparr>url = base_url,
             params = [(''symbol'', S symbol), (''interval'', S interval), (''limit'', I 1000),
                       (''startTime'', I ms)],
             timeout = 10\<rparr>]"
  using try_body_gets [OF build_params_default [OF assms]]
  by (simp add: fetch_klines_gets the_request_def)

theorem default_start_witness:
  "gets (fst (fetch_klines demo_globals (demo_world (replies (JArr []))) ''BTCUSDT'' ''1h'' 2
            None None)) =
     [\<lparr>url = base_url,
       params = [(''symbol'', S ''BTCUSDT''), (''interval'', S ''1h''), (''limit'', I 1000),
                 (''startTime'', I 1699827200000)],
       timeout = 10\<rparr>]"
  by (rule default_start [where t = 1699827200000000000])
     (simp_all add: demo_world_def demo_pandas_def in_range_def int64_max_def)

text \<open>
  C3. When \<open>end_time\<close> is given and \<open>start_time\<close> is not, no default lower bound is
  added: every request sent has the converted \<open>end_time\<close> as \<open>endTime\<close> and no
  \<open>startTime\<close>, and one request is sent whenever \<open>end_time\<close> converts.
\<close>

theorem end_only_has_no_start:
  "(\<forall>rq \<in> set (gets (fst (fetch_klines g w symbol interval days None (Some t)))).
      map_of (params rq) ''startTime'' = None
      \<and> (\<exists>ms. epoch_ms (pd w) t = Inr ms \<and> map_of (params rq) ''endTime'' = Some (I ms)))
   \<and> (\<forall>ms. epoch_ms (pd w) t = Inr ms \<longrightarrow>
        gets (fst (fetch_klines g w symbol interval days None (Some t))) =
          [\<lparr>url = base_url,
            params = [(''symbol'', S symbol), (''interval'', S interval), (''limit'', I 1000),
                      (''endTime'', I ms)],
            timeout = 10\<rparr>])"
proof (cases "epoch_ms (pd w) t")
  case (Inl e)
  then have "build_params w symbol interval days None (Some t) = Inl e"
    by (simp add: build_params_end_only)
  then show ?thesis
    using Inl by (simp add: fetch_klines_gets try_body_no_params quiet_def)
next
  case (Inr ms)
  then have "build_params w symbol interval days None (Some t) =
      Inr [(''symbol'', S symbol), (''interval'', S interval), (''limit'', I 1000),
           (''endTime'', I ms)]"
    by (simp add: build_params_end_only)
  from try_body_gets [OF this] show ?thesis
    using Inr by (simp add: fetch_klines_gets the_request_def)
qed

theorem end_only_has_no_start_witness:
  "epoch_ms (pd (demo_world (replies (JArr [])))) 1700000000000000000 = Inr 1700000000000
   \<and> gets (fst (fetch_klines demo_globals (demo_world (replies (JArr []))) ''BTCUSDT'' ''1h'' 2
             None (Some 1700000000000000000))) =
       [\<lparr>url = base_url,
         params = [(''symbol'', S ''BTCUSDT''), (''interval'', S ''1h''), (''limit'', I 1000),
                   (''endTime'', I 1700000000000)],
         timeout = 10\<rparr>]"
proof -
  have ms: "epoch_ms (pd (demo_world (replies (JArr [])))) 1700000000000000000 = Inr 1700000000000"
    by (simp add: demo_world_def demo_pandas_def in_range_def int64_max_def)
  from end_only_has_no_start [of demo_globals "demo_world (replies (JArr []))" "''BTCUSDT''"
      "''1h''" 2 1700000000000000000] ms
  show ?thesis by blast
qed




text \<open>
  C5. When the request succeeds and the body is an empty array or is missing, the
  result is the empty frame, no error is reported, and one warning is printed that
  carries the symbol and the parameters of the request.
\<close>

theorem fetch_klines_empty_payload:
  assumes "build_params w symbol interval days start_time end_time = Inr ps"
    and "requests_get w (the_request ps) = Inr resp"
    and "raise_for_status resp = None"
    and "json resp = Inr data"
    and "data = JArr [] \<or> data = JNull"
  shows "fetch_klines g w symbol interval days start_time end_time =
           (\<lparr>gets = [the_request ps], printed = [WARN symbol ps], slept = []\<rparr>, [])"
proof -
  have "no_data data = Inr True"
    using assms(5) no_data_empty by auto
  then have "try_body w symbol interval days start_time end_time =
      (quiet\<lparr>gets := [the_request ps], printed := [WARN symbol ps]\<rparr>, Inr [])"
    using try_body_data [OF assms(1-4)] by simp
  then show ?thesis
    by (simp add: fetch_klines_def quiet_def)
qed

theorem fetch_klines_empty_payload_witness:
  "fetch_klines demo_globals (demo_world (replies (JArr []))) ''BTCUSDT'' ''1h'' 2 None None =
     (\<lparr>gets = [the_request [(''symbol'', S ''BTCUSDT''), (''interval'', S ''1h''),
                             (''limit'', I 1000), (''startTime'', I 1699827200000)]],
       printed = [WARN ''BTCUSDT'' [(''symbol'', S ''BTCUSDT''), (''interval'', S ''1h''),
                                    (''limit'', I 1000), (''startTime'', I 1699827200000)]],
       slept = []\<rparr>, [])"
  by (rule fetch_klines_empty_payload [where resp = "\<lparr>raise_for_status = None, json = Inr (JArr [])\<rparr>"
        and data = "JArr []"])
     (simp_all add: demo_params_default demo_world_sel replies_def)

text \<open>
  C6. A non-empty array of rows of twelve fields whose cells convert is mapped row by
  row: field 0 becomes the \<open>open_time\<close> timestamp, fields 1 to 5 become the floats
  \<open>open\<close>, \<open>high\<close>, \<open>low\<close>, \<open>close\<close> and \<open>volume\<close>, the other six fields are dropped,
  and the frame returned has exactly these six columns in this order.
\<close>

theorem fetch_klines_maps_rows:
  assumes "build_params w symbol interval days start_time end_time = Inr ps"
    and "requests_get w (the_request ps) = Inr resp"
    and "raise_for_status resp = None"
    and "json resp = Inr data"
    and "rows_of 12 data = Some rows"
    and "rows \<noteq> []"
    and "list_all2 (parses (pd w)) rows ks"
  shows "snd (fetch_klines g w symbol interval days start_time end_time) =
           [(''open_time'', map (\<lambda>k. Time (open_time k)) ks),
            (''open'', map (\<lambda>k. Num (open_price k)) ks),
            (''high'', map (\<lambda>k. Num (high k)) ks),
            (''low'', map (\<lambda>k. Num (low k)) ks),
            (''close'', map (\<lambda>k. Num (close_price k)) ks),
            (''volume'', map (\<lambda>k. Num (volume k)) ks)]
         \<and> map fst (snd (fetch_klines g w symbol interval days start_time end_time)) =
             [''open_time'', ''open'', ''high'', ''low'', ''close'', ''volume'']
         \<and> printed (fst (fetch_klines g w symbol interval days start_time end_time)) =
             [OK symbol (length rows)]"
  by (simp add: fetch_klines_rows [OF assms] kline_frame_def)

theorem fetch_klines_maps_rows_witness:
  "list_all2 (parses demo_pandas)
     [demo_row 1700000000000 ''35000'', demo_row 1700003600000 ''35020'']
     [demo_kline 1700000000000 35000, demo_kline 1700003600000 35020]
   \<and> snd (fetch_klines demo_globals
        (demo_world (replies (JArr [JArr (demo_row 1700000000000 ''35000''),
                                    JArr (demo_row 1700003600000 ''35020'')])))
        ''BTCUSDT'' ''1h'' 2 None None) =
       [(''open_time'', [Time 1700000000000000000, Time 1700003600000000000]),
        (''open'', [Num 35000, Num 35020]),
        (''high'', [Num 35100, Num 35100]),
        (''low'', [Num 34900, Num 34900]),
        (''close'', [Num 35050, Num 35050]),
        (''volume'', [Num 12, Num 12])]"
proof -
  have p: "list_all2 (parses demo_pandas)
     [demo_row 1700000000000 ''35000'', demo_row 1700003600000 ''35020'']
     [demo_kline 1700000000000 35000, demo_kline 1700003600000 35020]"
    by (simp add: demo_parses)
  have "snd (fetch_klines demo_globals
        (demo_world (replies (JArr [JArr (demo_row 1700000000000 ''35000''),
                                    JArr (demo_row 1700003600000 ''35020'')])))
        ''BTCUSDT'' ''1h'' 2 None None) =
       [(''open_time'', map (\<lambda>k. Time (open_time k))
           [demo_kline 1700000000000 35000, demo_kline 1700003600000 35020]),
        (''open'', map (\<lambda>k. Num (open_price k))
           [demo_kline 1700000000000 35000, demo_kline 1700003600000 35020]),
        (''high'', map (\<lambda>k. Num (high k))
           [demo_kline 1700000000000 35000, demo_kline 1700003600000 35020]),
        (''low'', map (\<lambda>k. Num (low k))
           [demo_kline 1700000000000 35000, demo_kline 1700003600000 35020]),
        (''close'', map (\<lambda>k. Num (close_price k))
           [demo_kline 1700000000000 35000, demo_kline 1700003600000 35020]),
        (''volume'', map (\<lambda>k. Num (volume k))
           [demo_kline 1700000000000 35000, demo_kline 1700003600000 35020])]"
    by (rule conjunct1 [OF fetch_klines_maps_rows
          [where resp = "\<lparr>raise_for_status = None,
              json = Inr (JArr [JArr (demo_row 1700000000000 ''35000''),
                                JArr (demo_row 1700003600000 ''35020'')])\<rparr>"
            and data = "JArr [JArr (demo_row 1700000000000 ''35000''),
                              JArr (demo_row 1700003600000 ''35020'')]"
            and rows = "[demo_row 1700000000000 ''35000'', demo_row 1700003600000 ''35020'']"]])
       (simp_all add: demo_params_default demo_world_sel replies_def demo_row_length demo_parses)
  then show ?thesis
    using p by (simp add: demo_kline_def)
qed




text \<open>
  C8. The two credentials are loaded but not used by the fetch: whatever values they
  hold, \<open>fetch_klines\<close> sends the same request, prints the same lines and returns the
  same frame.
\<close>

theorem fetch_klines_ignores_credentials:
  "fetch_klines g w symbol interval days start_time end_time =
   fetch_klines g' w symbol interval days start_time end_time"
  by (simp add: fetch_klines_def)

theorem fetch_klines_ignores_credentials_witness:
  "fetch_klines demo_globals (demo_world (replies (JArr []))) ''BTCUSDT'' ''1h'' 2 None None =
   fetch_klines \<lparr>BINANCE_API_KEY = None, BINANCE_API_SECRET = None\<rparr>
     (demo_world (replies (JArr []))) ''BTCUSDT'' ''1h'' 2 None None"
  using fetch_klines_ignores_credentials
    [of demo_globals "demo_world (replies (JArr []))" "''BTCUSDT''" "''1h''" 2 None None
        "\<lparr>BINANCE_API_KEY = None, BINANCE_API_SECRET = None\<rparr>"]
  by simp

text \<open>
  C9, as stated: every successful call returns rows ascending by \<open>open_time\<close>, at most
  1000 of them. The function neither sorts nor truncates: a response whose two rows
  come in descending order is returned, with an \<open>OK\<close> line, in that order.
\<close>

theorem ascending_counterexample:
  "\<not> sorted (open_times (snd (fetch_klines demo_globals
        (demo_world (replies (JArr [JArr (demo_row 1700003600000 ''35020''),
                                    JArr (demo_row 1700000000000 ''35000'')])))
        ''BTCUSDT'' ''1h'' 2 None None)))
   \<and> printed (fst (fetch_klines demo_globals
        (demo_world (replies (JArr [JArr (demo_row 1700003600000 ''35020''),
                                    JArr (demo_row 1700000000000 ''35000'')])))
        ''BTCUSDT'' ''1h'' 2 None None)) = [OK ''BTCUSDT'' 2]"
proof -
  have "list_all2 (parses demo_pandas)
     [demo_row 1700003600000 ''35020'', demo_row 1700000000000 ''35000'']
     [demo_kline 1700003600000 35020, demo_kline 1700000000000 35000]"
    by (simp add: demo_parses)
  from demo_run_rows [OF this, of demo_globals] show ?thesis
    by (simp add: open_times_kline_frame demo_kline_def)
qed

text \<open>
  C9, amended: a successful call returns one row for each row of the response, in the
  order of the response. So the rows are ascending by \<open>open_time\<close>, and at most 1000,
  whenever those of the response are.
\<close>

theorem rows_keep_order:
  assumes "build_params w symbol interval days start_time end_time = Inr ps"
    and "requests_get w (the_request ps) = Inr resp"
    and "raise_for_status resp = None"
    and "json resp = Inr data"
    and "rows_of 12 data = Some rows"
    and "rows \<noteq> []"
    and "list_all2 (parses (pd w)) rows ks"
  shows "len_frame (snd (fetch_klines g w symbol interval days start_time end_time)) = length rows
         \<and> open_times (snd (fetch_klines g w symbol interval days start_time end_time)) =
             map open_time ks
         \<and> (sorted (map open_time ks) \<longrightarrow>
              sorted (open_times (snd (fetch_klines g w symbol interval days start_time end_time))))
         \<and> (length rows \<le> 1000 \<longrightarrow>
              len_frame (snd (fetch_klines g w symbol interval days start_time end_time)) \<le> 1000)"
proof -
  have "length ks = length rows"
    using assms(7) by (simp add: list_all2_lengthD)
  then show ?thesis
    by (simp add: fetch_klines_rows [OF assms] len_kline_frame open_times_kline_frame)
qed

theorem rows_keep_order_witness:
  "list_all2 (parses demo_pandas)
     [demo_row 1700000000000 ''35000'', demo_row 1700003600000 ''35020'']
     [demo_kline 1700000000000 35000, demo_kline 1700003600000 35020]
   \<and> open_times (snd (fetch_klines demo_globals
        (demo_world (replies (JArr [JArr (demo_row 1700000000000 ''35000''),
                                    JArr (demo_row 1700003600000 ''35020'')])))
        ''BTCUSDT'' ''1h'' 2 None None)) = [1700000000000000000, 1700003600000000000]
   \<and> len_frame (snd (fetch_klines demo_globals
        (demo_world (replies (JArr [JArr (demo_row 1700000000000 ''35000''),
                                    JArr (demo_row 1700003600000 ''35020'')])))
        ''BTCUSDT'' ''1h'' 2 None None)) = 2"
proof -
  have p: "list_all2 (parses demo_pandas)
     [demo_row 1700000000000 ''35000'', demo_row 1700003600000 ''35020'']
     [demo_kline 1700000000000 35000, demo_kline 1700003600000 35020]"
    by (simp add: demo_parses)
  have "len_frame (snd (fetch_klines demo_globals
        (demo_world (replies (JArr [JArr (demo_row 1700000000000 ''35000''),
                                    JArr (demo_row 1700003600000 ''35020'')])))
        ''BTCUSDT'' ''1h'' 2 None None)) =
          length [demo_row 1700000000000 ''35000'', demo_row 1700003600000 ''35020'']
      \<and> open_times (snd (fetch_klines demo_globals
        (demo_world (replies (JArr [JArr (demo_row 1700000000000 ''35000''),
                                    JArr (demo_row 1700003600000 ''35020'')])))
        ''BTCUSDT'' ''1h'' 2 None None)) =
          map open_time [demo_kline 1700000000000 35000, demo_kline 1700003600000 35020]"
    using rows_keep_order
          [where w = "demo_world (replies (JArr [JArr (demo_row 1700000000000 ''35000''),
                                    JArr (demo_row 1700003600000 ''35020'')]))"
            and resp = "\<lparr>raise_for_status = None,
              json = Inr (JArr [JArr (demo_row 1700000000000 ''35000''),
                                JArr (demo_row 1700003600000 ''35020'')])\<rparr>"
            and data = "JArr [JArr (demo_row 1700000000000 ''35000''),
                              JArr (demo_row 1700003600000 ''35020'')]"
            and rows = "[demo_row 1700000000000 ''35000'', demo_row 1700003600000 ''35020'']"
            and ks = "[demo_kline 1700000000000 35000, demo_kline 1700003600000 35020]"
            and symbol = "''BTCUSDT''" and interval = "''1h''" and days = 2
            and start_time = None and end_time = None and g = demo_globals
            and ps = "[(''symbol'', S ''BTCUSDT''), (''interval'', S ''1h''),
                       (''limit'', I 1000), (''startTime'', I 1699827200000)]"]
    by (simp add: demo_params_default demo_world_sel replies_def demo_row_length demo_parses)
  then show ?thesis
    using p by (simp add: demo_kline_def)
qed

text \<open>
  C10. The 2-second pause belongs to the handler alone. A call whose try block returns
  does not sleep: neither when the body is an empty array, where the empty frame is
  returned at once with the warning, nor when rows are returned. A call whose try
  block raises sleeps once, for 2 seconds.
\<close>

theorem sleep_only_on_exception:
  "(\<forall>df. snd (try_body w symbol interval days start_time end_time) = Inr df \<longrightarrow>
        slept (fst (fetch_klines g w symbol interval days start_time end_time)) = [])
   \<and> (\<forall>e. snd (try_body w symbol interval days start_time end_time) = Inl e \<longrightarrow>
        slept (fst (fetch_klines g w symbol interval days start_time end_time)) = [2])
   \<and> (\<forall>ps resp. build_params w symbol interval days start_time end_time = Inr ps
          \<and> requests_get w (the_request ps) = Inr resp \<and> raise_for_status resp = None
          \<and> json resp = Inr (JArr []) \<longrightarrow>
        fetch_klines g w symbol interval days start_time end_time =
          (\<lparr>gets = [the_request ps], printed = [WARN symbol ps], slept = []\<rparr>, []))
   \<and> (\<forall>ps resp data rows ks. build_params w symbol interval days start_time end_time = Inr ps
          \<and> requests_get w (the_request ps) = Inr resp \<and> raise_for_status resp = None
          \<and> json resp = Inr data \<and> rows_of 12 data = Some rows \<and> rows \<noteq> []
          \<and> list_all2 (parses (pd w)) rows ks \<longrightarrow>
        slept (fst (fetch_klines g w symbol interval days start_time end_time)) = []
        \<and> snd (fetch_klines g w symbol interval days start_time end_time) = kline_frame ks)"
proof (intro conjI allI impI)
  fix df
  assume "snd (try_body w symbol interval days start_time end_time) = Inr df"
  then show "slept (fst (fetch_klines g w symbol interval days start_time end_time)) = []"
    by (simp add: fetch_klines_return try_body_slept)
next
  fix e
  assume "snd (try_body w symbol interval days start_time end_time) = Inl e"
  then show "slept (fst (fetch_klines g w symbol interval days start_time end_time)) = [2]"
    by (simp add: fetch_klines_raise)
next
  fix ps resp
  assume "build_params w symbol interval days start_time end_time = Inr ps
          \<and> requests_get w (the_request ps) = Inr resp \<and> raise_for_status resp = None
          \<and> json resp = Inr (JArr [])"
  then show "fetch_klines g w symbol interval days start_time end_time =
          (\<lparr>gets = [the_request ps], printed = [WARN symbol ps], slept = []\<rparr>, [])"
    using fetch_klines_warn [of w symbol interval days start_time end_time ps resp "JArr []" g]
    by (simp add: no_data_empty)
next
  fix ps resp data rows ks
  assume a: "build_params w symbol interval days start_time end_time = Inr ps
          \<and> requests_get w (the_request ps) = Inr resp \<and> raise_for_status resp = None
          \<and> json resp = Inr data \<and> rows_of 12 data = Some rows \<and> rows \<noteq> []
          \<and> list_all2 (parses (pd w)) rows ks"
  then have r: "fetch_klines g w symbol interval days start_time end_time =
           (\<lparr>gets = [the_request ps], printed = [OK symbol (length rows)], slept = []\<rparr>,
            kline_frame ks)"
    using fetch_klines_rows [of w symbol interval days start_time end_time ps resp data rows ks g]
    by blast
  show "slept (fst (fetch_klines g w symbol interval days start_time end_time)) = []"
    by (simp add: r)
  show "snd (fetch_klines g w symbol interval days start_time end_time) = kline_frame ks"
    by (simp add: r)
qed

theorem sleep_only_on_exception_witness:
  "fetch_klines demo_globals (demo_world (replies (JArr []))) ''BTCUSDT'' ''1h'' 2 None None =
     (\<lparr>gets = [the_request [(''symbol'', S ''BTCUSDT''), (''interval'', S ''1h''),
                             (''limit'', I 1000), (''startTime'', I 1699827200000)]],
       printed = [WARN ''BTCUSDT'' [(''symbol'', S ''BTCUSDT''), (''interval'', S ''1h''),
                                    (''limit'', I 1000), (''startTime'', I 1699827200000)]],
       slept = []\<rparr>, [])
   \<and> snd (try_body (demo_world (replies (JArr []))) ''BTCUSDT'' ''1h'' 200000 None None) =
       Inl (Exn ''OutOfBoundsTimedelta'')
   \<and> slept (fst (fetch_klines demo_globals (demo_world (replies (JArr [])))
        ''BTCUSDT'' ''1h'' 200000 None None)) = [2]"
proof -
  let ?w = "demo_world (replies (JArr []))"
  have resp: "requests_get ?w (the_request [(''symbol'', S ''BTCUSDT''), (''interval'', S ''1h''),
        (''limit'', I 1000), (''startTime'', I 1699827200000)]) =
      Inr \<lparr>raise_for_status = None, json = Inr (JArr [])\<rparr>"
    by (simp add: demo_world_sel replies_def)
  have raised: "snd (try_body ?w ''BTCUSDT'' ''1h'' 200000 None None) =
      Inl (Exn ''OutOfBoundsTimedelta'')"
    by (simp add: try_body_no_params [OF demo_params_overflow])
  from sleep_only_on_exception [of ?w "''BTCUSDT''" "''1h''" 2 None None demo_globals]
    demo_params_default [of "replies (JArr [])"] resp
  have 1: "fetch_klines demo_globals ?w ''BTCUSDT'' ''1h'' 2 None None =
     (\<lparr>gets = [the_request [(''symbol'', S ''BTCUSDT''), (''interval'', S ''1h''),
                             (''limit'', I 1000), (''startTime'', I 1699827200000)]],
       printed = [WARN ''BTCUSDT'' [(''symbol'', S ''BTCUSDT''), (''interval'', S ''1h''),
                                    (''limit'', I 1000), (''startTime'', I 1699827200000)]],
       slept = []\<rparr>, [])"
    by force
  from sleep_only_on_exception [of ?w "''BTCUSDT''" "''1h''" 200000 None None demo_globals] raised
  have 2: "slept (fst (fetch_klines demo_globals ?w ''BTCUSDT'' ''1h'' 200000 None None)) = [2]"
    by blast
  show ?thesis
    using 1 2 raised by simp
qed

end
